theory Spec2Isabelle
  imports Main "HOL-Library.Word" "HOL-Library.AList"
begin

section \<open>The user store of \<^verbatim>\<open>backend/user_database.py\<close>\<close>

text \<open>
  The class \<^verbatim>\<open>UserDatabase\<close> keeps a Python dict \<^verbatim>\<open>self.users\<close> (username to user
  record) in memory and rewrites one JSON file after every mutation. The embedding
  passes the state explicitly and makes the environment an argument of each operation:
  the digest function of \<^verbatim>\<open>hashlib.sha256\<close>, the bytes drawn by \<^verbatim>\<open>secrets\<close>, the clock
  value of \<^verbatim>\<open>datetime.now()\<close> and the outcome of the file write. Exceptions are values
  of \<open>py_error\<close>. Calls of \<^verbatim>\<open>logger\<close> are left out: they change neither the store
  nor a result.
\<close>

datatype py_error = KeyError | ValueError | OSError

subsection \<open>Text, hexadecimal encoding and \<^verbatim>\<open>str.split\<close>\<close>

text \<open>
  A Python \<^verbatim>\<open>str\<close> is modelled by the bytes of its UTF-8 encoding, so that
  \<^verbatim>\<open>(password + salt).encode()\<close> is list concatenation. The byte of \<^verbatim>\<open>':'\<close> occurs in
  UTF-8 only as the colon itself, hence splitting the bytes at colons is splitting the
  text at colons. A \<^verbatim>\<open>str\<close> that has no UTF-8 encoding (one with a lone surrogate, on
  which \<^verbatim>\<open>encode\<close> raises) is not modelled.
\<close>

definition hexdigit :: "nat \<Rightarrow> char" where
  "hexdigit n = ''0123456789abcdef'' ! (n mod 16)"

text \<open>\<open>hex_of n v\<close>: the \<open>n\<close> low hexadecimal digits of \<open>v\<close>, most significant first.\<close>

fun hex_of :: "nat \<Rightarrow> nat \<Rightarrow> string" where
  "hex_of 0 v = []"
| "hex_of (Suc n) v = hex_of n (v div 16) @ [hexdigit (v mod 16)]"

text \<open>
  \<^verbatim>\<open>secrets.token_hex(16)\<close> draws 16 random bytes and prints them as 32 hexadecimal
  digits; the bytes drawn are the argument. \<^verbatim>\<open>hashlib.sha256(b).hexdigest()\<close> prints the
  32 bytes of the digest as 64 hexadecimal digits; the digest function itself is a
  parameter \<open>sha256\<close> of the operations that hash.
\<close>

definition token_hex16 :: "128 word \<Rightarrow> string" where
  "token_hex16 r = hex_of 32 (unat r)"

definition hexdigest :: "256 word \<Rightarrow> string" where
  "hexdigest d = hex_of 64 (unat d)"

text \<open>\<^verbatim>\<open>s.split(c)\<close> for a one-character separator: never empty, one more part than separators.\<close>

fun str_split :: "char \<Rightarrow> string \<Rightarrow> string list" where
  "str_split c [] = [[]]"
| "str_split c (x # xs) =
     (if x = c then [] # str_split c xs
      else (case str_split c xs of
              [] \<Rightarrow> [[x]]
            | p # ps \<Rightarrow> (x # p) # ps))"

subsection \<open>Credential store\<close>

text \<open>
  \<^verbatim>\<open>
  def _hash_password(self, password):
      salt = secrets.token_hex(16)
      password_hash = hashlib.sha256((password + salt).encode()).hexdigest()
      return f"{salt}:{password_hash}"
  \<close>
\<close>

definition hash_password :: "(string \<Rightarrow> 256 word) \<Rightarrow> 128 word \<Rightarrow> string \<Rightarrow> string" where
  "hash_password sha256 rnd password =
     (let salt = token_hex16 rnd;
          password_hash = hexdigest (sha256 (password @ salt))
      in salt @ '':'' @ password_hash)"

text \<open>
  \<^verbatim>\<open>
  def _verify_password(self, password, stored_hash):
      try:
          salt, password_hash = stored_hash.split(':')
          test_hash = hashlib.sha256((password + salt).encode()).hexdigest()
          return test_hash == password_hash
      except:
          return False
  \<close>
  \<open>verify_password_try\<close> is the body of the \<^verbatim>\<open>try\<close>: unpacking anything but two parts
  raises \<^verbatim>\<open>ValueError\<close>. \<open>verify_password\<close> adds the handler.
\<close>

definition verify_password_try :: "(string \<Rightarrow> 256 word) \<Rightarrow> string \<Rightarrow> string \<Rightarrow> py_error + bool" where
  "verify_password_try sha256 password stored_hash =
     (case str_split CHR '':'' stored_hash of
        [salt, password_hash] \<Rightarrow>
          (let test_hash = hexdigest (sha256 (password @ salt))
           in Inr (test_hash = password_hash))
      | _ \<Rightarrow> Inl ValueError)"

definition verify_password :: "(string \<Rightarrow> 256 word) \<Rightarrow> string \<Rightarrow> string \<Rightarrow> bool" where
  "verify_password sha256 password stored_hash =
     (case verify_password_try sha256 password stored_hash of
        Inl e \<Rightarrow> False
      | Inr b \<Rightarrow> b)"

subsection \<open>Data model\<close>

text \<open>
  Time is the reading of the naive local clock \<^verbatim>\<open>datetime.now()\<close>, counted in
  microseconds. The store keeps a time as text: \<^verbatim>\<open>t.isoformat()\<close> when writing,
  \<^verbatim>\<open>datetime.fromisoformat(s)\<close> when reading, and the second inverts the first. A stored
  text is therefore modelled by what \<^verbatim>\<open>fromisoformat\<close> makes of it: \<open>Stamp t\<close> is a text
  that reads back as the naive time \<open>t\<close>, \<open>NotStamp s\<close> is any other text \<open>s\<close>, on
  which reading (or the comparison with \<^verbatim>\<open>datetime.now()\<close> that follows) raises.
\<close>

type_synonym time = int

datatype stamp = Stamp time | NotStamp string

definition isoformat :: "time \<Rightarrow> stamp" where
  "isoformat t = Stamp t"

fun fromisoformat :: "stamp \<Rightarrow> py_error + time" where
  "fromisoformat (Stamp t) = Inr t"
| "fromisoformat (NotStamp s) = Inl ValueError"

text \<open>\<^verbatim>\<open>timedelta(hours=h)\<close> in microseconds.\<close>

definition timedelta_hours :: "int \<Rightarrow> time" where
  "timedelta_hours h = h * 3600 * 1000000"

text \<open>
  The records of the JSON document. A key the code only ever reads with \<^verbatim>\<open>d[key]\<close> is a
  plain field; a key that it reads with \<^verbatim>\<open>d.get(key)\<close>, removes with \<^verbatim>\<open>pop\<close> or writes
  as \<^verbatim>\<open>None\<close> is an \<open>option\<close> field, \<open>None\<close> standing for an absent key or a JSON null
  (where the code tells the two apart, a comment says which is meant). The keys
  \<^verbatim>\<open>created_at\<close> and \<^verbatim>\<open>thread_id\<close> occur in both records; the user's are named
  \<open>user_created_at\<close> and \<open>user_thread_id\<close> here.
\<close>

record chat =
  chat_id :: string
  title :: string
  thread_id :: "string option"
  created_at :: stamp
  last_message_at :: "stamp option"
  message_count :: "int option"

record user =
  user_id :: string
  username :: string
  email :: "string option"
  password_hash :: string
  user_created_at :: stamp
  last_login :: "stamp option"
  chats :: "(string \<times> chat) list option"
  is_active :: "bool option"
  session_token :: "string option"
  session_expires :: "stamp option"
  user_thread_id :: "string option"

text \<open>
  A Python dict keeps its keys in insertion order, and \<^verbatim>\<open>validate_session\<close> walks the
  users in that order, so \<^verbatim>\<open>self.users\<close> is an association list: \<open>map_of\<close> reads a
  key, \<open>AList.update\<close> assigns one (in place when the key exists, at the end
  otherwise). The keys of a dict are distinct.
\<close>

type_synonym store = "(string \<times> user) list"

text \<open>
  The file at \<^verbatim>\<open>self.db_file\<close>: absent, present but not readable as JSON, or the JSON
  dump of a store (\<^verbatim>\<open>json.load\<close> gives back what \<^verbatim>\<open>json.dump\<close> wrote). A file that
  parses to something else than an object of user records is not modelled.
\<close>

datatype json_file = NoFile | Unparseable | Json store

record db =
  users :: store
  db_file :: json_file

text \<open>
  What a write of the file meets: it succeeds, \<^verbatim>\<open>open(.., 'w')\<close> raises and leaves the
  file as it was, or \<^verbatim>\<open>json.dump\<close> raises after \<^verbatim>\<open>open\<close> has truncated the file. One
  outcome is given to each call of an operation and holds for every write of that call.
\<close>

datatype write_outcome = Written | OpenFailed | DumpFailed

text \<open>The dicts the operations return; a key that is not always there is an \<open>option\<close>.\<close>

record public_user =
  pub_user_id :: string
  pub_username :: string
  pub_email :: string
  pub_chats :: "(string \<times> chat) list"

record response =
  success :: bool
  message :: string
  resp_user_id :: "string option"
  resp_user_data :: "public_user option"

record identity =
  id_username :: string
  id_user_id :: string
  id_thread_id :: "string option"

subsection \<open>Loading and saving\<close>

text \<open>\<^verbatim>\<open>json.load(open(self.db_file, 'r'))\<close>.\<close>

fun json_load :: "json_file \<Rightarrow> py_error + store" where
  "json_load NoFile = Inl OSError"
| "json_load Unparseable = Inl ValueError"
| "json_load (Json d) = Inr d"

text \<open>
  \<^verbatim>\<open>
  def _load_users(self):
      if os.path.exists(self.db_file):
          try:
              with open(self.db_file, 'r') as f:
                  return json.load(f)
          except Exception as e:
              logger.error(f"Error loading users database: {e}")
              return {}
      return {}
  \<close>
  The result type has room for an exception; no branch of the code makes one.
\<close>

definition load_users :: "json_file \<Rightarrow> py_error + store" where
  "load_users f =
     (if f \<noteq> NoFile then
        (case json_load f of
           Inr d \<Rightarrow> Inr d
         | Inl e \<Rightarrow> Inr [])
      else Inr [])"

text \<open>\<^verbatim>\<open>UserDatabase.__init__\<close>: \<^verbatim>\<open>self.users = self._load_users()\<close>.\<close>

definition init :: "json_file \<Rightarrow> py_error + db" where
  "init f =
     (case load_users f of
        Inl e \<Rightarrow> Inl e
      | Inr d \<Rightarrow> Inr \<lparr>users = d, db_file = f\<rparr>)"

text \<open>
  \<^verbatim>\<open>
  def _save_users(self):
      try:
          with open(self.db_file, 'w') as f:
              json.dump(self.users, f, indent=2)
      except Exception as e:
          logger.error(f"Error saving users database: {e}")
          raise
  \<close>
\<close>

fun save_users :: "write_outcome \<Rightarrow> db \<Rightarrow> db \<times> (py_error + unit)" where
  "save_users Written d = (d\<lparr>db_file := Json (users d)\<rparr>, Inr ())"
| "save_users OpenFailed d = (d, Inl OSError)"
| "save_users DumpFailed d = (d\<lparr>db_file := Unparseable\<rparr>, Inl OSError)"

subsection \<open>Registration and login\<close>

text \<open>The loop \<^verbatim>\<open>for user_data in self.users.values(): if user_data.get("email") == email\<close>.\<close>

fun email_exists :: "store \<Rightarrow> string \<Rightarrow> bool" where
  "email_exists [] e = False"
| "email_exists ((name, user_data) # rest) e =
     (if email user_data = Some e then True else email_exists rest e)"

text \<open>
  \<^verbatim>\<open>
  def register_user(self, username, email, password):
      if username in self.users:
          return {"success": False, "message": "Username already exists"}
      for user_data in self.users.values():
          if user_data.get("email") == email:
              return {"success": False, "message": "Email already exists"}
      user_id = secrets.token_urlsafe(16)
      hashed_password = self._hash_password(password)
      user_data = {"user_id": user_id, "username": username, "email": email,
                   "password_hash": hashed_password,
                   "created_at": datetime.now().isoformat(), "last_login": None,
                   "chats": {}, "is_active": True}
      self.users[username] = user_data
      self._save_users()
      return {"success": True, "message": "User registered successfully", "user_id": user_id}
  \<close>
  \<open>new_id\<close> is the text drawn by \<^verbatim>\<open>secrets.token_urlsafe(16)\<close>, \<open>rnd\<close> the salt bytes.
\<close>

definition register_user ::
  "(string \<Rightarrow> 256 word) \<Rightarrow> string \<Rightarrow> 128 word \<Rightarrow> time \<Rightarrow> write_outcome \<Rightarrow>
   db \<Rightarrow> string \<Rightarrow> string \<Rightarrow> string \<Rightarrow> db \<times> (py_error + response)" where
  "register_user sha256 new_id rnd now io d name mail password =
     (if map_of (users d) name \<noteq> None then
        (d, Inr \<lparr>success = False, message = ''Username already exists'',
                 resp_user_id = None, resp_user_data = None\<rparr>)
      else if email_exists (users d) mail then
        (d, Inr \<lparr>success = False, message = ''Email already exists'',
                 resp_user_id = None, resp_user_data = None\<rparr>)
      else
        (let hashed_password = hash_password sha256 rnd password;
             user_data = \<lparr>user_id = new_id, username = name, email = Some mail,
                       password_hash = hashed_password,
                       user_created_at = isoformat now, last_login = None,
                       chats = Some [], is_active = Some True,
                       session_token = None, session_expires = None,
                       user_thread_id = None\<rparr>;
             (d', saved) = save_users io (d\<lparr>users := AList.update name user_data (users d)\<rparr>)
         in case saved of
              Inl e \<Rightarrow> (d', Inl e)
            | Inr _ \<Rightarrow>
                (d', Inr \<lparr>success = True, message = ''User registered successfully'',
                          resp_user_id = Some new_id, resp_user_data = None\<rparr>)))"

text \<open>
  \<^verbatim>\<open>
  def authenticate_user(self, username, password):
      if username not in self.users:
          return {"success": False, "message": "Invalid username or password"}
      user_data = self.users[username]
      if not user_data.get("is_active", True):
          return {"success": False, "message": "Account is deactivated"}
      if not self._verify_password(password, user_data["password_hash"]):
          return {"success": False, "message": "Invalid username or password"}
      user_data["last_login"] = datetime.now().isoformat()
      self._save_users()
      return {"success": True, "message": "Login successful",
              "user_data": {"user_id": user_data["user_id"],
                            "username": user_data["username"],
                            "email": user_data["email"],
                            "chats": user_data.get("chats", {})}}
  \<close>
  In \<open>is_active\<close>, \<open>None\<close> is the absent key. \<^verbatim>\<open>user_data["email"]\<close> raises \<^verbatim>\<open>KeyError\<close>
  on a record without the key.
\<close>

definition authenticate_user ::
  "(string \<Rightarrow> 256 word) \<Rightarrow> time \<Rightarrow> write_outcome \<Rightarrow>
   db \<Rightarrow> string \<Rightarrow> string \<Rightarrow> db \<times> (py_error + response)" where
  "authenticate_user sha256 now io d name password =
     (case map_of (users d) name of
        None \<Rightarrow>
          (d, Inr \<lparr>success = False, message = ''Invalid username or password'',
                   resp_user_id = None, resp_user_data = None\<rparr>)
      | Some user_data \<Rightarrow>
          if \<not> (case is_active user_data of None \<Rightarrow> True | Some b \<Rightarrow> b) then
            (d, Inr \<lparr>success = False, message = ''Account is deactivated'',
                     resp_user_id = None, resp_user_data = None\<rparr>)
          else if \<not> verify_password sha256 password (password_hash user_data) then
            (d, Inr \<lparr>success = False, message = ''Invalid username or password'',
                     resp_user_id = None, resp_user_data = None\<rparr>)
          else
            (let user_data' = user_data\<lparr>last_login := Some (isoformat now)\<rparr>;
                 (d', saved) = save_users io (d\<lparr>users := AList.update name user_data' (users d)\<rparr>)
             in case saved of
                  Inl e \<Rightarrow> (d', Inl e)
                | Inr _ \<Rightarrow>
                    (case email user_data' of
                       None \<Rightarrow> (d', Inl KeyError)
                     | Some mail \<Rightarrow>
                         (d', Inr \<lparr>success = True, message = ''Login successful'',
                                   resp_user_id = None,
                                   resp_user_data = Some
                                     \<lparr>pub_user_id = user_id user_data',
                                      pub_username = username user_data',
                                      pub_email = mail,
                                      pub_chats = (case chats user_data' of
                                                     None \<Rightarrow> []
                                                   | Some cs \<Rightarrow> cs)\<rparr>\<rparr>))))"

subsection \<open>Sessions\<close>

text \<open>
  \<^verbatim>\<open>
  def create_user_session(self, username):
      session_token = self._generate_session_token()
      if username in self.users:
          user_data = self.users[username]
          user_data["session_token"] = session_token
          user_data["session_expires"] = (datetime.now() + timedelta(hours=24)).isoformat()
          self._save_users()
      return session_token
  \<close>
  \<open>tok\<close> is the text drawn by \<^verbatim>\<open>secrets.token_urlsafe(32)\<close>.
\<close>

definition create_user_session ::
  "string \<Rightarrow> time \<Rightarrow> write_outcome \<Rightarrow> db \<Rightarrow> string \<Rightarrow> db \<times> (py_error + string)" where
  "create_user_session tok now io d name =
     (let session_token' = tok
      in case map_of (users d) name of
           Some user_data \<Rightarrow>
             (let user_data' = user_data
                    \<lparr>session_token := Some session_token',
                     session_expires := Some (isoformat (now + timedelta_hours 24))\<rparr>;
                  (d', saved) = save_users io (d\<lparr>users := AList.update name user_data' (users d)\<rparr>)
              in case saved of
                   Inl e \<Rightarrow> (d', Inl e)
                 | Inr _ \<Rightarrow> (d', Inr session_token'))
         | None \<Rightarrow> (d, Inr session_token'))"

text \<open>
  \<^verbatim>\<open>
  def validate_session(self, session_token):
      for username, user_data in self.users.items():
          if user_data.get("session_token") == session_token:
              try:
                  expires = datetime.fromisoformat(user_data.get("session_expires", ""))
                  if datetime.now() < expires:
                      return {"username": username, "user_id": user_data["user_id"],
                              "thread_id": user_data.get("thread_id")}
                  else:
                      user_data.pop("session_token", None)
                      user_data.pop("session_expires", None)
                      self._save_users()
              except:
                  pass
      return None
  \<close>
  \<open>validate_scan\<close> is the loop: \<open>seen\<close> holds the items already visited (as the loop
  left them), the list argument the items still to visit, \<open>f\<close> the file. The handler
  \<^verbatim>\<open>except: pass\<close> also catches what \<^verbatim>\<open>_save_users\<close> raises, so the loop goes on after a
  failed write; the in-memory record stays cleared. In \<open>session_expires\<close>, \<open>None\<close> is
  the absent key, read as the empty text. One clock value serves the whole call.
\<close>

fun validate_scan ::
  "write_outcome \<Rightarrow> time \<Rightarrow> string \<Rightarrow> store \<Rightarrow> store \<Rightarrow> json_file \<Rightarrow> db \<times> identity option" where
  "validate_scan io now tok seen [] f = (\<lparr>users = seen, db_file = f\<rparr>, None)"
| "validate_scan io now tok seen ((name, user_data) # rest) f =
     (if session_token user_data = Some tok then
        (case fromisoformat (case session_expires user_data of
                               None \<Rightarrow> NotStamp []
                             | Some s \<Rightarrow> s) of
           Inl e \<Rightarrow> validate_scan io now tok (seen @ [(name, user_data)]) rest f
         | Inr expires \<Rightarrow>
             if now < expires then
               (\<lparr>users = seen @ (name, user_data) # rest, db_file = f\<rparr>,
                Some \<lparr>id_username = name, id_user_id = user_id user_data,
                      id_thread_id = user_thread_id user_data\<rparr>)
             else
               (let user_data' = user_data\<lparr>session_token := None, session_expires := None\<rparr>;
                    saved = save_users io \<lparr>users = seen @ (name, user_data') # rest, db_file = f\<rparr>
                in validate_scan io now tok (seen @ [(name, user_data')]) rest
                     (db_file (fst saved))))
      else validate_scan io now tok (seen @ [(name, user_data)]) rest f)"

definition validate_session ::
  "write_outcome \<Rightarrow> time \<Rightarrow> db \<Rightarrow> string \<Rightarrow> db \<times> identity option" where
  "validate_session io now d tok = validate_scan io now tok [] (users d) (db_file d)"

subsection \<open>Chat registry\<close>

text \<open>
  \<^verbatim>\<open>
  def update_chat_last_message(self, username, chat_id):
      if username in self.users and chat_id in self.users[username].get("chats", {}):
          chat_data = self.users[username]["chats"][chat_id]
          chat_data["last_message_at"] = datetime.now().isoformat()
          chat_data["message_count"] = chat_data.get("message_count", 0) + 1
          self._save_users()
  \<close>
  In \<open>chats\<close> and \<open>message_count\<close>, \<open>None\<close> is the absent key.
\<close>

definition update_chat_last_message ::
  "time \<Rightarrow> write_outcome \<Rightarrow> db \<Rightarrow> string \<Rightarrow> string \<Rightarrow> db \<times> (py_error + unit)" where
  "update_chat_last_message now io d name cid =
     (case map_of (users d) name of
        None \<Rightarrow> (d, Inr ())
      | Some user_data \<Rightarrow>
          (case map_of (case chats user_data of None \<Rightarrow> [] | Some cs \<Rightarrow> cs) cid of
             None \<Rightarrow> (d, Inr ())
           | Some chat_data \<Rightarrow>
               (let chat_data' = chat_data
                      \<lparr>last_message_at := Some (isoformat now),
                       message_count := Some ((case message_count chat_data of
                                                 None \<Rightarrow> 0
                                               | Some n \<Rightarrow> n) + 1)\<rparr>;
                    user_data' = user_data
                      \<lparr>chats := Some (AList.update cid chat_data'
                                        (case chats user_data of None \<Rightarrow> [] | Some cs \<Rightarrow> cs))\<rparr>
                in save_users io (d\<lparr>users := AList.update name user_data' (users d)\<rparr>))))"

subsection \<open>Auxiliary definitions for the statements\<close>

text \<open>
  What the loop of \<^verbatim>\<open>validate_session\<close> does to an item whose token is \<open>tok\<close> and has
  expired: the two \<^verbatim>\<open>pop\<close> calls. Other items are left alone.
\<close>

definition clear_session :: "string \<Rightarrow> string \<times> user \<Rightarrow> string \<times> user" where
  "clear_session tok item =
     (if session_token (snd item) = Some tok
      then (fst item, (snd item)\<lparr>session_token := None, session_expires := None\<rparr>)
      else item)"

text \<open>
  A store with two users, for the instances below: \<^verbatim>\<open>alice\<close> is active, has one chat
  with three messages and holds a session token that expired at time 5000; \<^verbatim>\<open>bob\<close> is
  deactivated and holds no token.
\<close>

definition chat1 :: chat where
  "chat1 = \<lparr>chat_id = ''c1'', title = ''My Chat'', thread_id = None,
            created_at = Stamp 1200, last_message_at = Some (Stamp 1500),
            message_count = Some 3\<rparr>"

definition alice :: user where
  "alice = \<lparr>user_id = ''id-alice'', username = ''alice'', email = Some ''alice@x.com'',
            password_hash = ''000102030405060708090a0b0c0d0e0f:ba9970b1fcdbdcc0f4c21adec0d42aefa546bf13eda1e8dd15ddf94b65173349'',
            user_created_at = Stamp 1000, last_login = Some (Stamp 1100),
            chats = Some [(''c1'', chat1)], is_active = Some True,
            session_token = Some ''token-old'', session_expires = Some (Stamp 5000),
            user_thread_id = None\<rparr>"

definition bob :: user where
  "bob = \<lparr>user_id = ''id-bob'', username = ''bob'', email = Some ''bob@x.com'',
          password_hash = ''101112131415161718191a1b1c1d1e1f:9072bff7338ff5cefae4652c04a994befa89c8ffda44f6ba34f494d5fe90b7b5'',
          user_created_at = Stamp 2000, last_login = None,
          chats = Some [], is_active = Some False,
          session_token = None, session_expires = None,
          user_thread_id = None\<rparr>"

definition example_db :: db where
  "example_db = \<lparr>users = [(''alice'', alice), (''bob'', bob)],
                 db_file = Json [(''alice'', alice), (''bob'', bob)]\<rparr>"

section \<open>Properties of the credential store\<close>

lemma hexdigit_mem: "hexdigit n \<in> set ''0123456789abcdef''"
  unfolding hexdigit_def by (rule nth_mem) simp

lemma hexdigit_not_colon: "hexdigit n \<noteq> CHR '':''"
  using hexdigit_mem [of n] by auto

lemma colon_notin_hex_of: "CHR '':'' \<notin> set (hex_of n v)"
  by (induction n arbitrary: v) (auto dest: hexdigit_not_colon [symmetric, THEN notE])

lemma length_hex_of: "length (hex_of n v) = n"
  by (induction n arbitrary: v) auto

lemma hexdigit_inj: "hexdigit a = hexdigit b \<Longrightarrow> a mod 16 = b mod 16"
proof -
  assume h: "hexdigit a = hexdigit b"
  have d: "distinct ''0123456789abcdef''" by simp
  have la: "a mod 16 < length ''0123456789abcdef''" by simp
  have lb: "b mod 16 < length ''0123456789abcdef''" by simp
  from h show ?thesis unfolding hexdigit_def
    using nth_eq_iff_index_eq [OF d la lb] by blast
qed

text \<open>Numbers below \<open>16 ^ n\<close> are told apart by their \<open>n\<close> digits.\<close>

lemma hex_of_inj: "v < 16 ^ n \<Longrightarrow> w < 16 ^ n \<Longrightarrow> hex_of n v = hex_of n w \<Longrightarrow> v = w"
proof (induction n arbitrary: v w)
  case 0
  then show ?case by simp
next
  case (Suc n)
  from Suc.prems(3) have e1: "hex_of n (v div 16) = hex_of n (w div 16)"
    and e2: "hexdigit (v mod 16) = hexdigit (w mod 16)" by simp_all
  have "v div 16 < 16 ^ n"
    using Suc.prems(1) by (simp add: less_mult_imp_div_less mult.commute)
  moreover have "w div 16 < 16 ^ n"
    using Suc.prems(2) by (simp add: less_mult_imp_div_less mult.commute)
  ultimately have "v div 16 = w div 16" using Suc.IH e1 by blast
  moreover have "v mod 16 = w mod 16" using hexdigit_inj [OF e2] by simp
  ultimately show ?case by (metis div_mult_mod_eq)
qed

lemma token_hex16_inj: "token_hex16 r1 = token_hex16 r2 \<Longrightarrow> r1 = r2"
proof -
  assume h: "token_hex16 r1 = token_hex16 r2"
  have "unat r1 < 2 ^ 128" "unat r2 < 2 ^ 128"
    using unsigned_less [of r1] unsigned_less [of r2] by simp_all
  then have "unat r1 < 16 ^ 32" "unat r2 < 16 ^ 32" by simp_all
  with h have "unat r1 = unat r2"
    unfolding token_hex16_def using hex_of_inj [of "unat r1" 32 "unat r2"] by blast
  then show ?thesis by (rule word_unat_eq_iff [THEN iffD2])
qed

lemma hexdigest_inj: "hexdigest d1 = hexdigest d2 \<Longrightarrow> d1 = d2"
proof -
  assume h: "hexdigest d1 = hexdigest d2"
  have "unat d1 < 2 ^ 256" "unat d2 < 2 ^ 256"
    using unsigned_less [of d1] unsigned_less [of d2] by simp_all
  then have "unat d1 < 16 ^ 64" "unat d2 < 16 ^ 64" by simp_all
  with h have "unat d1 = unat d2"
    unfolding hexdigest_def using hex_of_inj [of "unat d1" 64 "unat d2"] by blast
  then show ?thesis by (rule word_unat_eq_iff [THEN iffD2])
qed

lemma str_split_nonempty: "str_split c s \<noteq> []"
  by (induction s) (auto split: list.splits)

lemma str_split_none: "c \<notin> set s \<Longrightarrow> str_split c s = [s]"
  by (induction s) auto

lemma str_split_first: "c \<notin> set s \<Longrightarrow> str_split c (s @ c # t) = s # str_split c t"
  by (induction s) auto

lemma length_str_split: "length (str_split c s) = Suc (count_list s c)"
  by (induction s) (auto split: list.splits simp: str_split_nonempty)

text \<open>A credential made by \<open>hash_password\<close> splits into its salt and its digest.\<close>

lemma split_hash:
  "str_split CHR '':'' (hash_password sha256 r p) =
     [token_hex16 r, hexdigest (sha256 (p @ token_hex16 r))]"
  unfolding hash_password_def Let_def token_hex16_def hexdigest_def
  by (simp add: str_split_first str_split_none colon_notin_hex_of)

lemma verify_hash_iff:
  "verify_password sha256 p (hash_password sha256 r p2) \<longleftrightarrow>
     sha256 (p @ token_hex16 r) = sha256 (p2 @ token_hex16 r)"
  unfolding verify_password_def verify_password_try_def
  by (auto simp: split_hash dest: hexdigest_inj)

lemma hash_password_salt_inj:
  "hash_password sha256 r1 p = hash_password sha256 r2 p' \<Longrightarrow> r1 = r2"
proof -
  assume "hash_password sha256 r1 p = hash_password sha256 r2 p'"
  then have "str_split CHR '':'' (hash_password sha256 r1 p) =
      str_split CHR '':'' (hash_password sha256 r2 p')"
    by simp
  then have "token_hex16 r1 = token_hex16 r2" by (simp add: split_hash)
  then show ?thesis by (rule token_hex16_inj)
qed

lemma verify_try_malformed:
  "count_list stored_hash CHR '':'' \<noteq> 1 \<Longrightarrow>
     verify_password_try sha256 password stored_hash = Inl ValueError"
proof -
  assume h: "count_list stored_hash CHR '':'' \<noteq> 1"
  have "length (str_split CHR '':'' stored_hash) \<noteq> 2"
    using h by (simp add: length_str_split)
  then show ?thesis
    unfolding verify_password_try_def
    by (auto split: list.splits)
qed

text \<open>
  C3: a password verifies against its own credential, whatever salt was drawn. Another
  password \<open>p\<close> is rejected against the credential of \<open>p2\<close> whenever the digests of \<open>p\<close>
  and of \<open>p2\<close>, each followed by the salt, differ, which is what telling two passwords
  apart by a digest means; the statement gives the exact condition, verification
  succeeding only when the two digests are equal. Two credentials of one password made
  with different salt bytes are different texts, and the password verifies against
  both.
\<close>

theorem hash_then_verify:
  "verify_password sha256 p (hash_password sha256 rnd p) \<and>
   (verify_password sha256 p (hash_password sha256 rnd p2) \<longleftrightarrow>
      sha256 (p @ token_hex16 rnd) = sha256 (p2 @ token_hex16 rnd)) \<and>
   (rnd1 \<noteq> rnd2 \<longrightarrow>
      hash_password sha256 rnd1 p \<noteq> hash_password sha256 rnd2 p \<and>
      verify_password sha256 p (hash_password sha256 rnd1 p) \<and>
      verify_password sha256 p (hash_password sha256 rnd2 p))"
  using hash_password_salt_inj [of sha256 rnd1 p rnd2 p]
  by (auto simp: verify_hash_iff)

text \<open>
  C3, an instance: with the length of the text standing in for its digest, \<^verbatim>\<open>pw123\<close>
  verifies against its credentials under the salts 7 and 8, which differ, and does not
  verify against the credential of \<^verbatim>\<open>wrongpw\<close>.
\<close>

theorem hash_then_verify_witness:
  "verify_password (\<lambda>s. word_of_nat (length s)) ''pw123''
     (hash_password (\<lambda>s. word_of_nat (length s)) 7 ''pw123'') \<and>
   \<not> verify_password (\<lambda>s. word_of_nat (length s)) ''pw123''
     (hash_password (\<lambda>s. word_of_nat (length s)) 7 ''wrongpw'') \<and>
   (7 :: 128 word) \<noteq> 8 \<and>
   hash_password (\<lambda>s. word_of_nat (length s)) 7 ''pw123'' \<noteq>
     hash_password (\<lambda>s. word_of_nat (length s)) 8 ''pw123'' \<and>
   verify_password (\<lambda>s. word_of_nat (length s)) ''pw123''
     (hash_password (\<lambda>s. word_of_nat (length s)) 8 ''pw123'')"
  using hash_then_verify [of "\<lambda>s. word_of_nat (length s)" "''pw123''" 7 "''wrongpw''" 7 8]
  by (simp add: token_hex16_def length_hex_of word_of_nat_eq_iff take_bit_nat_eq_self)

text \<open>
  C9: \<open>verify_password\<close> returns a truth value on every input, and on a stored credential
  that does not hold exactly one colon (none, or more than one) the unpacking raises
  inside the \<^verbatim>\<open>try\<close> and the result is \<open>False\<close>.
\<close>

theorem verify_password_fails_closed:
  "count_list stored_hash CHR '':'' \<noteq> 1 \<Longrightarrow>
     verify_password_try sha256 password stored_hash = Inl ValueError \<and>
     verify_password sha256 password stored_hash = False"
  by (simp add: verify_password_def verify_try_malformed)

text \<open>C9, two instances: a credential without a colon and one with two.\<close>

theorem verify_password_fails_closed_witness:
  "count_list ''5f4dcc3b5aa765d61d8327deb882cf99'' CHR '':'' \<noteq> 1 \<and>
   verify_password (\<lambda>s. 0) ''pw123'' ''5f4dcc3b5aa765d61d8327deb882cf99'' = False \<and>
   count_list ''ab:cd:ef'' CHR '':'' \<noteq> 1 \<and>
   verify_password (\<lambda>s. 0) ''pw123'' ''ab:cd:ef'' = False"
  using verify_password_fails_closed [of "''5f4dcc3b5aa765d61d8327deb882cf99''" "\<lambda>s. 0" "''pw123''"]
    verify_password_fails_closed [of "''ab:cd:ef''" "\<lambda>s. 0" "''pw123''"]
  by simp

section \<open>Properties of loading\<close>

text \<open>
  C1, as the code has it: construction never raises. A missing file gives the empty
  store, a file that cannot be parsed gives the empty store as well (the handler returns
  \<^verbatim>\<open>{}\<close>), and a parsed document gives its content; the file itself is not touched.
\<close>

theorem init_never_raises:
  "init f = Inr \<lparr>users = (case f of Json d \<Rightarrow> d | _ \<Rightarrow> []), db_file = f\<rparr>"
  by (cases f) (simp_all add: init_def load_users_def)

text \<open>
  C1, as the specification states it, fails: on a file that cannot be parsed the
  constructor returns the empty store and no error reaches the caller.
\<close>

theorem init_swallows_corrupt_file:
  "init Unparseable = Inr \<lparr>users = [], db_file = Unparseable\<rparr>"
  by (simp add: init_def load_users_def)

section \<open>Properties of registration and login\<close>

lemma email_exists_iff: "email_exists us e \<longleftrightarrow> (\<exists>(n, u)\<in>set us. email u = Some e)"
  by (induction us e rule: email_exists.induct) auto

lemma example_lookup:
  "map_of (users example_db) ''alice'' = Some alice"
  "map_of (users example_db) ''bob'' = Some bob"
  "map_of (users example_db) ''carol'' = None"
  by (simp_all add: example_db_def)

text \<open>
  C4: when the username is a key of the store, \<open>register_user\<close> returns the failure
  \<^verbatim>\<open>Username already exists\<close>; when the username is free and a record holds the e-mail
  address, it returns the failure \<^verbatim>\<open>Email already exists\<close> (the username is checked
  first). In either case the call fails and the state it returns, the users in memory
  and the file, is the state it was given.
\<close>

theorem register_duplicate_rejected:
  "(map_of (users d) name \<noteq> None \<longrightarrow>
      register_user sha256 new_id rnd now io d name mail password =
        (d, Inr \<lparr>success = False, message = ''Username already exists'',
                 resp_user_id = None, resp_user_data = None\<rparr>)) \<and>
   (map_of (users d) name = None \<and> (\<exists>(n, u)\<in>set (users d). email u = Some mail) \<longrightarrow>
      register_user sha256 new_id rnd now io d name mail password =
        (d, Inr \<lparr>success = False, message = ''Email already exists'',
                 resp_user_id = None, resp_user_data = None\<rparr>)) \<and>
   (map_of (users d) name \<noteq> None \<or> (\<exists>(n, u)\<in>set (users d). email u = Some mail) \<longrightarrow>
      fst (register_user sha256 new_id rnd now io d name mail password) = d \<and>
      (\<exists>r. snd (register_user sha256 new_id rnd now io d name mail password) = Inr r \<and>
           \<not> success r))"
  unfolding register_user_def by (auto simp: email_exists_iff)

text \<open>
  C4, two instances on the example store: \<^verbatim>\<open>alice\<close> registers again with a new address,
  and \<^verbatim>\<open>carol\<close> registers with the address of \<^verbatim>\<open>alice\<close>.
\<close>

theorem register_duplicate_rejected_witness:
  "map_of (users example_db) ''alice'' \<noteq> None \<and>
   register_user (\<lambda>s. 0) ''id-new'' 7 6000 Written example_db ''alice'' ''other@x.com'' ''pw456'' =
     (example_db, Inr \<lparr>success = False, message = ''Username already exists'',
                       resp_user_id = None, resp_user_data = None\<rparr>) \<and>
   map_of (users example_db) ''carol'' = None \<and>
   (\<exists>(n, u)\<in>set (users example_db). email u = Some ''alice@x.com'') \<and>
   register_user (\<lambda>s. 0) ''id-new'' 7 6000 Written example_db ''carol'' ''alice@x.com'' ''pw456'' =
     (example_db, Inr \<lparr>success = False, message = ''Email already exists'',
                       resp_user_id = None, resp_user_data = None\<rparr>)"
proof -
  have h: "\<exists>(n, u)\<in>set (users example_db). email u = Some ''alice@x.com''"
    by (simp add: example_db_def alice_def)
  show ?thesis
    using h example_lookup
      register_duplicate_rejected [where d = example_db and name = "''alice''"
        and ?sha256.0 = "\<lambda>s. 0" and new_id = "''id-new''" and rnd = 7 and now = 6000
        and io = Written and mail = "''other@x.com''" and password = "''pw456''"]
      register_duplicate_rejected [where d = example_db and name = "''carol''"
        and ?sha256.0 = "\<lambda>s. 0" and new_id = "''id-new''" and rnd = 7 and now = 6000
        and io = Written and mail = "''alice@x.com''" and password = "''pw456''"]
    by simp
qed

text \<open>
  C2, as the code has it: for a user whose account is not deactivated (\<^verbatim>\<open>is_active\<close>
  absent or true) and a password that fails verification, \<open>authenticate_user\<close> returns
  the failure \<^verbatim>\<open>Invalid username or password\<close> and the unchanged state, and so does every
  call with a username that is not in the store, whatever its password, clock and file
  outcome: the two results are equal.
\<close>

theorem authenticate_hides_username:
  assumes "map_of (users d) name = Some u"
    and "is_active u \<noteq> Some False"
    and "\<not> verify_password sha256 wrong (password_hash u)"
    and "map_of (users d) other = None"
  shows "authenticate_user sha256 now io d name wrong =
           (d, Inr \<lparr>success = False, message = ''Invalid username or password'',
                    resp_user_id = None, resp_user_data = None\<rparr>) \<and>
         authenticate_user sha256 now' io' d other password =
           authenticate_user sha256 now io d name wrong"
  using assms unfolding authenticate_user_def by (auto split: option.splits)

text \<open>
  C2, an instance on the example store, with a digest function that is constantly 0:
  \<^verbatim>\<open>alice\<close> with a password that fails, and the unknown \<^verbatim>\<open>carol\<close>.
\<close>

theorem authenticate_hides_username_witness:
  "map_of (users example_db) ''alice'' = Some alice \<and>
   is_active alice \<noteq> Some False \<and>
   \<not> verify_password (\<lambda>s. 0) ''wrongpw'' (password_hash alice) \<and>
   map_of (users example_db) ''carol'' = None \<and>
   authenticate_user (\<lambda>s. 0) 6000 Written example_db ''alice'' ''wrongpw'' =
     (example_db, Inr \<lparr>success = False, message = ''Invalid username or password'',
                       resp_user_id = None, resp_user_data = None\<rparr>) \<and>
   authenticate_user (\<lambda>s. 0) 6100 OpenFailed example_db ''carol'' ''pw123'' =
     authenticate_user (\<lambda>s. 0) 6000 Written example_db ''alice'' ''wrongpw''"
proof -
  have h2: "is_active alice \<noteq> Some False" by (simp add: alice_def)
  have h3: "\<not> verify_password (\<lambda>s. 0) ''wrongpw'' (password_hash alice)"
    by code_simp
  show ?thesis
    using h2 h3 example_lookup
      authenticate_hides_username [OF example_lookup(1) h2 h3 example_lookup(3),
        where now = 6000 and io = Written and now' = 6100 and io' = OpenFailed
        and password = "''pw123''"]
    by simp
qed

text \<open>
  C2, as the specification states it, fails: \<^verbatim>\<open>bob\<close> is in the example store and
  deactivated, \<^verbatim>\<open>carol\<close> is not in it. Whatever the password, the digest function, the
  clock and the file outcome, the call for \<^verbatim>\<open>bob\<close> answers \<^verbatim>\<open>Account is deactivated\<close> and
  the call for \<^verbatim>\<open>carol\<close> answers \<^verbatim>\<open>Invalid username or password\<close>.
\<close>

theorem authenticate_reveals_deactivated:
  "\<forall>sha256 now io password.
     authenticate_user sha256 now io example_db ''bob'' password =
       (example_db, Inr \<lparr>success = False, message = ''Account is deactivated'',
                         resp_user_id = None, resp_user_data = None\<rparr>) \<and>
     authenticate_user sha256 now io example_db ''carol'' password =
       (example_db, Inr \<lparr>success = False, message = ''Invalid username or password'',
                         resp_user_id = None, resp_user_data = None\<rparr>)"
  by (simp add: authenticate_user_def example_lookup bob_def)

section \<open>Properties of sessions\<close>

text \<open>A token that no record holds: the loop visits every item and changes nothing.\<close>

lemma validate_scan_no_match:
  "\<forall>(n, u)\<in>set rest. session_token u \<noteq> Some tok \<Longrightarrow>
     validate_scan io now tok seen rest f = (\<lparr>users = seen @ rest, db_file = f\<rparr>, None)"
  by (induction rest arbitrary: seen) auto

lemma validate_session_no_match:
  "\<forall>(n, u)\<in>set (users d). session_token u \<noteq> Some tok \<Longrightarrow>
     validate_session io now d tok = (d, None)"
  unfolding validate_session_def by (simp add: validate_scan_no_match)

lemma validate_scan_skip:
  "\<forall>(n, u)\<in>set pre. session_token u \<noteq> Some tok \<Longrightarrow>
     validate_scan io now tok seen (pre @ rest) f = validate_scan io now tok (seen @ pre) rest f"
  by (induction pre arbitrary: seen) auto

lemma map_clear_session_id:
  "\<forall>(n, u)\<in>set rest. session_token u \<noteq> Some tok \<Longrightarrow> map (clear_session tok) rest = rest"
  by (induction rest) (auto simp: clear_session_def)

lemma clear_session_clears:
  "\<forall>(n, u)\<in>set (map (clear_session tok) us). session_token u \<noteq> Some tok"
  by (induction us) (auto simp: clear_session_def)

text \<open>Of two writes with the same outcome, the second decides what the file holds.\<close>

lemma save_users_twice:
  "db_file (fst (save_users io
      \<lparr>users = us, db_file = db_file (fst (save_users io \<lparr>users = us', db_file = f\<rparr>))\<rparr>)) =
   db_file (fst (save_users io \<lparr>users = us, db_file = f\<rparr>))"
  by (cases io) simp_all

text \<open>
  The loop on a list in which every item that holds the token has expired: each such
  item is cleared, the file is written after each, and nothing is returned.
\<close>

lemma validate_scan_expired:
  "\<forall>(n, u)\<in>set rest. session_token u = Some tok \<longrightarrow>
       (\<exists>t. session_expires u = Some (Stamp t) \<and> t \<le> now) \<Longrightarrow>
   validate_scan io now tok seen rest f =
     (\<lparr>users = seen @ map (clear_session tok) rest,
       db_file = (if \<exists>(n, u)\<in>set rest. session_token u = Some tok
                  then db_file (fst (save_users io
                         \<lparr>users = seen @ map (clear_session tok) rest, db_file = f\<rparr>))
                  else f)\<rparr>, None)"
proof (induction rest arbitrary: seen f)
  case Nil
  then show ?case by simp
next
  case (Cons item rest)
  obtain name u where item: "item = (name, u)" by (cases item)
  have rest_ok: "\<forall>(n, u)\<in>set rest. session_token u = Some tok \<longrightarrow>
       (\<exists>t. session_expires u = Some (Stamp t) \<and> t \<le> now)"
    using Cons.prems by simp
  note IH = Cons.IH [OF rest_ok]
  show ?case
  proof (cases "session_token u = Some tok")
    case False
    then show ?thesis
      unfolding item by (simp add: IH clear_session_def)
  next
    case True
    then obtain t where t: "session_expires u = Some (Stamp t)" "t \<le> now"
      using Cons.prems unfolding item by auto
    show ?thesis
    proof (cases "\<exists>(n, u)\<in>set rest. session_token u = Some tok")
      case True
      with \<open>session_token u = Some tok\<close> t show ?thesis
        unfolding item by (simp add: IH clear_session_def save_users_twice Let_def)
    next
      case False
      then have "\<forall>(n, u)\<in>set rest. session_token u \<noteq> Some tok" by auto
      then have "map (clear_session tok) rest = rest" by (rule map_clear_session_id)
      with False \<open>session_token u = Some tok\<close> t show ?thesis
        unfolding item by (simp add: IH clear_session_def Let_def)
    qed
  qed
qed

text \<open>
  C5: let every record that holds the token \<open>tok\<close> have a stored expiry that is not
  after the clock (the branch the code takes when \<^verbatim>\<open>now < expires\<close> is false; an expiry in
  the past is the main case). Then \<open>validate_session\<close> returns \<open>None\<close>; the users it
  leaves are the users it was given with \<^verbatim>\<open>session_token\<close> and \<^verbatim>\<open>session_expires\<close> removed
  from the records that held the token, all else unchanged; when some record held the
  token and the write succeeds, the file holds these users; and a second call with the
  same token, at any time and with any file outcome, returns \<open>None\<close> and changes nothing.
  A token that no record holds returns \<open>None\<close> and changes nothing.
\<close>

theorem validate_expired_clears:
  assumes "\<forall>(n, u)\<in>set (users d). session_token u = Some tok \<longrightarrow>
             (\<exists>t. session_expires u = Some (Stamp t) \<and> t \<le> now)"
  shows "snd (validate_session io now d tok) = None \<and>
         users (fst (validate_session io now d tok)) = map (clear_session tok) (users d) \<and>
         (io = Written \<and> (\<exists>(n, u)\<in>set (users d). session_token u = Some tok) \<longrightarrow>
            db_file (fst (validate_session io now d tok)) =
              Json (users (fst (validate_session io now d tok)))) \<and>
         validate_session io' now' (fst (validate_session io now d tok)) tok =
           (fst (validate_session io now d tok), None) \<and>
         ((\<forall>(n, u)\<in>set (users d). session_token u \<noteq> Some tok) \<longrightarrow>
            validate_session io now d tok = (d, None))"
proof -
  have v: "validate_session io now d tok =
     (\<lparr>users = map (clear_session tok) (users d),
       db_file = (if \<exists>(n, u)\<in>set (users d). session_token u = Some tok
                  then db_file (fst (save_users io
                         \<lparr>users = map (clear_session tok) (users d), db_file = db_file d\<rparr>))
                  else db_file d)\<rparr>, None)"
    unfolding validate_session_def using validate_scan_expired [OF assms, of io "[]" "db_file d"]
    by simp
  have 1: "snd (validate_session io now d tok) = None" by (simp add: v)
  have 2: "users (fst (validate_session io now d tok)) = map (clear_session tok) (users d)"
    by (simp add: v)
  have 3: "io = Written \<and> (\<exists>(n, u)\<in>set (users d). session_token u = Some tok) \<longrightarrow>
            db_file (fst (validate_session io now d tok)) =
              Json (users (fst (validate_session io now d tok)))"
    unfolding v by auto
  have "\<forall>(n, u)\<in>set (users (fst (validate_session io now d tok))). session_token u \<noteq> Some tok"
    unfolding 2 by (rule clear_session_clears)
  then have 4: "validate_session io' now' (fst (validate_session io now d tok)) tok =
           (fst (validate_session io now d tok), None)"
    by (rule validate_session_no_match)
  have 5: "(\<forall>(n, u)\<in>set (users d). session_token u \<noteq> Some tok) \<longrightarrow>
            validate_session io now d tok = (d, None)"
    by (simp add: validate_session_no_match)
  from 1 2 3 4 5 show ?thesis by blast
qed

text \<open>
  C5, on the example store at time 6000: the token of \<^verbatim>\<open>alice\<close> expired at 5000, so it
  is cleared and written out, and fails again at 7000; a token that nobody holds fails
  and changes nothing.
\<close>

theorem validate_expired_clears_witness:
  "session_token alice = Some ''token-old'' \<and>
   session_expires alice = Some (Stamp 5000) \<and> (5000 :: int) \<le> 6000 \<and>
   session_token bob = None \<and>
   snd (validate_session Written 6000 example_db ''token-old'') = None \<and>
   users (fst (validate_session Written 6000 example_db ''token-old'')) =
     [(''alice'', alice\<lparr>session_token := None, session_expires := None\<rparr>), (''bob'', bob)] \<and>
   db_file (fst (validate_session Written 6000 example_db ''token-old'')) =
     Json [(''alice'', alice\<lparr>session_token := None, session_expires := None\<rparr>), (''bob'', bob)] \<and>
   validate_session OpenFailed 7000
       (fst (validate_session Written 6000 example_db ''token-old'')) ''token-old'' =
     (fst (validate_session Written 6000 example_db ''token-old''), None) \<and>
   validate_session Written 6000 example_db ''token-none'' = (example_db, None)"
proof -
  have a: "session_token alice = Some ''token-old''"
    "session_expires alice = Some (Stamp 5000)" "session_token bob = None"
    by (simp_all add: alice_def bob_def)
  have us: "users example_db = [(''alice'', alice), (''bob'', bob)]"
    by (simp add: example_db_def)
  have h1: "\<forall>(n, u)\<in>set (users example_db). session_token u = Some ''token-old'' \<longrightarrow>
             (\<exists>t. session_expires u = Some (Stamp t) \<and> t \<le> 6000)"
    by (simp add: us a)
  have h2: "\<forall>(n, u)\<in>set (users example_db). session_token u = Some ''token-none'' \<longrightarrow>
             (\<exists>t. session_expires u = Some (Stamp t) \<and> t \<le> 6000)"
    by (simp add: us a)
  have m: "map (clear_session ''token-old'') (users example_db) =
      [(''alice'', alice\<lparr>session_token := None, session_expires := None\<rparr>), (''bob'', bob)]"
    by (simp add: us a clear_session_def)
  show ?thesis
    using validate_expired_clears [OF h1, where io = Written and io' = OpenFailed and now' = 7000]
      validate_expired_clears [OF h2, where io = Written and io' = OpenFailed and now' = 7000]
    unfolding m by (simp add: a us)
qed

text \<open>Reading a key splits the list at its first occurrence; assigning it keeps the split.\<close>

lemma map_of_split:
  "map_of us name = Some u \<Longrightarrow>
     \<exists>pre post. us = pre @ (name, u) # post \<and> name \<notin> fst ` set pre"
proof (induction us)
  case Nil
  then show ?case by simp
next
  case (Cons item us)
  show ?case
  proof (cases "fst item = name")
    case True
    with Cons.prems have "item = (name, u)" by (cases item) simp
    then have "item # us = [] @ (name, u) # us \<and> name \<notin> fst ` set []" by simp
    then show ?thesis by blast
  next
    case False
    with Cons.prems have "map_of us name = Some u" by (cases item) (simp split: if_splits)
    then obtain pre post where "us = pre @ (name, u) # post" "name \<notin> fst ` set pre"
      using Cons.IH by blast
    with False have "item # us = (item # pre) @ (name, u) # post \<and>
        name \<notin> fst ` set (item # pre)"
      by auto
    then show ?thesis by blast
  qed
qed

lemma update_split:
  "name \<notin> fst ` set pre \<Longrightarrow>
     AList.update name v (pre @ (name, w) # post) = pre @ (name, v) # post"
  by (induction pre) auto

lemma set_update_distinct:
  "distinct (map fst us) \<Longrightarrow> (n, x) \<in> set (AList.update name v us) \<Longrightarrow>
     (n = name \<and> x = v) \<or> (n \<noteq> name \<and> (n, x) \<in> set us)"
  by (induction us) (auto split: if_splits simp: image_iff)

lemma map_of_Some_key: "map_of al k = Some v \<Longrightarrow> k \<in> fst ` set al"
  by (metis map_of_eq_None_iff option.distinct(1))

text \<open>An identity is only ever returned for an item that holds the token.\<close>

lemma validate_scan_Some:
  "validate_scan io now tok seen rest f = (d', Some i) \<Longrightarrow>
     \<exists>u. (id_username i, u) \<in> set rest \<and> session_token u = Some tok"
proof (induction rest arbitrary: seen f)
  case Nil
  then show ?case by simp
next
  case (Cons item rest)
  obtain name u where item: "item = (name, u)" by (cases item)
  from Cons.prems show ?case
    unfolding item
    by (auto split: if_splits sum.splits simp: Let_def dest: Cons.IH)
qed

text \<open>In a store with distinct keys, two tokens that validate as one user are one token.\<close>

lemma one_token_per_user:
  assumes "distinct (map fst (users s))"
    and "snd (validate_session io1 now1 s t1) = Some i1"
    and "snd (validate_session io2 now2 s t2) = Some i2"
    and "id_username i1 = id_username i2"
  shows "t1 = t2"
proof -
  obtain u1 where u1: "(id_username i1, u1) \<in> set (users s)" "session_token u1 = Some t1"
    using assms(2) validate_scan_Some [of io1 now1 t1 "[]" "users s" "db_file s" _ i1]
    unfolding validate_session_def by (metis prod.collapse)
  obtain u2 where u2: "(id_username i2, u2) \<in> set (users s)" "session_token u2 = Some t2"
    using assms(3) validate_scan_Some [of io2 now2 t2 "[]" "users s" "db_file s" _ i2]
    unfolding validate_session_def by (metis prod.collapse)
  from u1(1) u2(1) assms(1,4) have "u1 = u2"
    by (metis eq_key_imp_eq_value)
  with u1(2) u2(2) show ?thesis by simp
qed

lemma users_create_user_session:
  "map_of (users d) name = Some u \<Longrightarrow>
     users (fst (create_user_session tok now io d name)) =
       AList.update name (u\<lparr>session_token := Some tok,
          session_expires := Some (isoformat (now + timedelta_hours 24))\<rparr>) (users d)"
  unfolding create_user_session_def by (cases io) (simp_all add: Let_def)

lemma create_user_session_written:
  "map_of (users d) name = Some u \<Longrightarrow>
     db_file (fst (create_user_session tok now Written d name)) =
       Json (users (fst (create_user_session tok now Written d name))) \<and>
     snd (create_user_session tok now Written d name) = Inr tok"
  unfolding create_user_session_def by (simp_all add: Let_def)

text \<open>
  C7: for a user in the store and a drawn token that no record holds yet,
  \<open>create_user_session\<close> leaves a state in which \<open>validate_session\<close> with that token, at
  any time before the expiry (24 hours after the grant) and with any file outcome,
  returns the username under which the user is stored, the \<^verbatim>\<open>user_id\<close> of the record and
  its \<^verbatim>\<open>thread_id\<close>, and changes nothing. When the write of the grant succeeds, the
  grant returns the token.
\<close>

theorem granted_token_validates:
  assumes "map_of (users d) name = Some u"
    and "\<forall>(n, x)\<in>set (users d). session_token x \<noteq> Some tok"
    and "now' < now + timedelta_hours 24"
  shows "validate_session io' now' (fst (create_user_session tok now io d name)) tok =
           (fst (create_user_session tok now io d name),
            Some \<lparr>id_username = name, id_user_id = user_id u,
                  id_thread_id = user_thread_id u\<rparr>) \<and>
         (io = Written \<longrightarrow> snd (create_user_session tok now io d name) = Inr tok)"
proof -
  let ?u' = "u\<lparr>session_token := Some tok,
          session_expires := Some (isoformat (now + timedelta_hours 24))\<rparr>"
  let ?d' = "fst (create_user_session tok now io d name)"
  obtain pre post where split: "users d = pre @ (name, u) # post" "name \<notin> fst ` set pre"
    using map_of_split [OF assms(1)] by blast
  have us': "users ?d' = pre @ (name, ?u') # post"
    using users_create_user_session [OF assms(1), of tok now io] split
    by (simp add: update_split)
  have pre: "\<forall>(n, x)\<in>set pre. session_token x \<noteq> Some tok"
    using assms(2) split(1) by auto
  have "validate_session io' now' ?d' tok =
      validate_scan io' now' tok pre ((name, ?u') # post) (db_file ?d')"
    unfolding validate_session_def us'
    using validate_scan_skip [OF pre, of io' now' "[]"] by simp
  also have "\<dots> = (\<lparr>users = pre @ (name, ?u') # post, db_file = db_file ?d'\<rparr>,
      Some \<lparr>id_username = name, id_user_id = user_id u, id_thread_id = user_thread_id u\<rparr>)"
    using assms(3) by (simp add: isoformat_def)
  also have "\<lparr>users = pre @ (name, ?u') # post, db_file = db_file ?d'\<rparr> = ?d'"
    using us' by simp
  finally have 1: "validate_session io' now' ?d' tok =
      (?d', Some \<lparr>id_username = name, id_user_id = user_id u,
                  id_thread_id = user_thread_id u\<rparr>)" .
  have 2: "io = Written \<longrightarrow> snd (create_user_session tok now io d name) = Inr tok"
    using create_user_session_written [OF assms(1)] by simp
  from 1 2 show ?thesis by blast
qed

text \<open>
  C7, on the example store: \<^verbatim>\<open>alice\<close> is granted a new token at time 6000 and validates
  with it at time 7000.
\<close>

theorem granted_token_validates_witness:
  "map_of (users example_db) ''alice'' = Some alice \<and>
   session_token alice \<noteq> Some ''token-new'' \<and>
   session_token bob \<noteq> Some ''token-new'' \<and>
   (7000 :: int) < 6000 + timedelta_hours 24 \<and>
   validate_session OpenFailed 7000
       (fst (create_user_session ''token-new'' 6000 Written example_db ''alice'')) ''token-new'' =
     (fst (create_user_session ''token-new'' 6000 Written example_db ''alice''),
      Some \<lparr>id_username = ''alice'', id_user_id = ''id-alice'', id_thread_id = None\<rparr>) \<and>
   snd (create_user_session ''token-new'' 6000 Written example_db ''alice'') = Inr ''token-new''"
proof -
  have a: "session_token alice \<noteq> Some ''token-new''" "session_token bob \<noteq> Some ''token-new''"
    "user_id alice = ''id-alice''" "user_thread_id alice = None"
    by (simp_all add: alice_def bob_def)
  have h2: "\<forall>(n, x)\<in>set (users example_db). session_token x \<noteq> Some ''token-new''"
    by (simp add: example_db_def a)
  have h3: "(7000 :: int) < 6000 + timedelta_hours 24"
    by (simp add: timedelta_hours_def)
  show ?thesis
    using granted_token_validates [OF example_lookup(1) h2 h3,
        where io = Written and io' = OpenFailed]
      a h3 example_lookup(1)
    by simp
qed

text \<open>
  C6: in a store with distinct keys (as every dict has), for a user in the store,
  \<open>create_user_session\<close> leaves that user's record with the drawn token in
  \<^verbatim>\<open>session_token\<close> and the clock plus 24 hours in \<^verbatim>\<open>session_expires\<close>, in place of
  whatever the two fields held, and all its other fields as they were; every other
  record and the order of the keys are unchanged; when the write succeeds the file
  holds the new users. A token other than the drawn one that no other user holds (the
  one just replaced, in particular) then fails validation at any time. And two tokens
  that validate as the same user are the same token: a user has at most one active
  token.
\<close>

theorem session_overwrites_token:
  assumes "distinct (map fst (users d))"
    and "map_of (users d) name = Some u"
  shows "map_of (users (fst (create_user_session tok now io d name))) name =
           Some (u\<lparr>session_token := Some tok,
                   session_expires := Some (isoformat (now + timedelta_hours 24))\<rparr>) \<and>
         (\<forall>n. n \<noteq> name \<longrightarrow>
            map_of (users (fst (create_user_session tok now io d name))) n = map_of (users d) n) \<and>
         map fst (users (fst (create_user_session tok now io d name))) = map fst (users d) \<and>
         (io = Written \<longrightarrow>
            db_file (fst (create_user_session tok now io d name)) =
              Json (users (fst (create_user_session tok now io d name)))) \<and>
         (\<forall>old. old \<noteq> tok \<and>
              (\<forall>(n, x)\<in>set (users d). n \<noteq> name \<longrightarrow> session_token x \<noteq> Some old) \<longrightarrow>
            validate_session io' now' (fst (create_user_session tok now io d name)) old =
              (fst (create_user_session tok now io d name), None)) \<and>
         (\<forall>io1 now1 t1 i1 io2 now2 t2 i2.
            snd (validate_session io1 now1 (fst (create_user_session tok now io d name)) t1) =
              Some i1 \<and>
            snd (validate_session io2 now2 (fst (create_user_session tok now io d name)) t2) =
              Some i2 \<and>
            id_username i1 = id_username i2 \<longrightarrow> t1 = t2)"
proof -
  let ?u' = "u\<lparr>session_token := Some tok,
          session_expires := Some (isoformat (now + timedelta_hours 24))\<rparr>"
  let ?d' = "fst (create_user_session tok now io d name)"
  have us': "users ?d' = AList.update name ?u' (users d)"
    by (rule users_create_user_session [OF assms(2)])
  have 1: "map_of (users ?d') name = Some ?u'"
    unfolding us' by (simp add: update_conv')
  have 2: "\<forall>n. n \<noteq> name \<longrightarrow> map_of (users ?d') n = map_of (users d) n"
    unfolding us' by (simp add: update_conv')
  have 3: "map fst (users ?d') = map fst (users d)"
    unfolding us' using map_of_Some_key [OF assms(2)] by (simp add: update_keys)
  have 4: "io = Written \<longrightarrow> db_file ?d' = Json (users ?d')"
    using create_user_session_written [OF assms(2)] by auto
  have 5: "\<forall>old. old \<noteq> tok \<and>
      (\<forall>(n, x)\<in>set (users d). n \<noteq> name \<longrightarrow> session_token x \<noteq> Some old) \<longrightarrow>
       validate_session io' now' ?d' old = (?d', None)"
  proof (intro allI impI)
    fix old
    assume h: "old \<noteq> tok \<and>
      (\<forall>(n, x)\<in>set (users d). n \<noteq> name \<longrightarrow> session_token x \<noteq> Some old)"
    have "\<forall>(n, x)\<in>set (users ?d'). session_token x \<noteq> Some old"
      unfolding us' using set_update_distinct [OF assms(1), of _ _ name ?u'] h by fastforce
    then show "validate_session io' now' ?d' old = (?d', None)"
      by (rule validate_session_no_match)
  qed
  have "distinct (map fst (users ?d'))"
    unfolding us' using assms(1) by (rule distinct_update)
  then have 6: "\<forall>io1 now1 t1 i1 io2 now2 t2 i2.
            snd (validate_session io1 now1 ?d' t1) = Some i1 \<and>
            snd (validate_session io2 now2 ?d' t2) = Some i2 \<and>
            id_username i1 = id_username i2 \<longrightarrow> t1 = t2"
    using one_token_per_user by blast
  from 1 2 3 4 5 6 show ?thesis by blast
qed

text \<open>
  C6, on the example store: \<^verbatim>\<open>alice\<close> holds \<^verbatim>\<open>token-old\<close> and is granted \<^verbatim>\<open>token-new\<close> at
  time 6000. Her record then holds the new token and the expiry 6000 plus 24 hours,
  \<^verbatim>\<open>bob\<close> is untouched, the file holds the new users, and \<^verbatim>\<open>token-old\<close> fails
  validation at time 4000, before its own expiry.
\<close>

theorem session_overwrites_token_witness:
  "distinct (map fst (users example_db)) \<and>
   map_of (users example_db) ''alice'' = Some alice \<and>
   session_token alice = Some ''token-old'' \<and>
   session_expires alice = Some (Stamp 5000) \<and>
   map_of (users (fst (create_user_session ''token-new'' 6000 Written example_db ''alice'')))
       ''alice'' =
     Some (alice\<lparr>session_token := Some ''token-new'',
                 session_expires := Some (Stamp 86400006000)\<rparr>) \<and>
   map_of (users (fst (create_user_session ''token-new'' 6000 Written example_db ''alice'')))
       ''bob'' = Some bob \<and>
   db_file (fst (create_user_session ''token-new'' 6000 Written example_db ''alice'')) =
     Json (users (fst (create_user_session ''token-new'' 6000 Written example_db ''alice''))) \<and>
   validate_session Written 4000
       (fst (create_user_session ''token-new'' 6000 Written example_db ''alice'')) ''token-old'' =
     (fst (create_user_session ''token-new'' 6000 Written example_db ''alice''), None)"
proof -
  have h1: "distinct (map fst (users example_db))"
    by (simp add: example_db_def)
  have a: "session_token alice = Some ''token-old''"
    "session_expires alice = Some (Stamp 5000)" "session_token bob = None"
    by (simp_all add: alice_def bob_def)
  have others: "\<forall>(n, x)\<in>set (users example_db).
      n \<noteq> ''alice'' \<longrightarrow> session_token x \<noteq> Some ''token-old''"
    by (simp add: example_db_def a)
  have t: "isoformat (6000 + timedelta_hours 24) = Stamp 86400006000"
    by (simp add: isoformat_def timedelta_hours_def)
  show ?thesis
    using session_overwrites_token [OF h1 example_lookup(1),
        where tok = "''token-new''" and now = 6000 and io = Written
        and io' = Written and now' = 4000]
      others h1 a example_lookup
    unfolding t by simp
qed

text \<open>
  C10: for a username that is not in the store, \<open>create_user_session\<close> returns the drawn
  token and the state it was given: no record is changed and the file is not written.
  If the token is fresh, that is, no record holds it, validating it in that state
  returns \<open>None\<close> at any time and with any file outcome; and so does validating it in
  any later state \<open>s\<close> in which still no record holds it.
\<close>

theorem session_for_unknown_user:
  "map_of (users d) name = None \<Longrightarrow>
     create_user_session tok now io d name = (d, Inr tok) \<and>
     ((\<forall>(n, u)\<in>set (users d). session_token u \<noteq> Some tok) \<longrightarrow>
        (\<forall>io' now'. validate_session io' now'
            (fst (create_user_session tok now io d name)) tok =
              (fst (create_user_session tok now io d name), None))) \<and>
     (\<forall>s io' now'. (\<forall>(n, u)\<in>set (users s). session_token u \<noteq> Some tok) \<longrightarrow>
        validate_session io' now' s tok = (s, None))"
  unfolding create_user_session_def by (simp add: validate_session_no_match)

text \<open>
  C10, on the example store: \<^verbatim>\<open>carol\<close> is not a user; the call returns the token, the
  store is the example store, and the token fails validation.
\<close>

theorem session_for_unknown_user_witness:
  "map_of (users example_db) ''carol'' = None \<and>
   session_token alice \<noteq> Some ''token-new'' \<and>
   session_token bob \<noteq> Some ''token-new'' \<and>
   create_user_session ''token-new'' 6000 DumpFailed example_db ''carol'' =
     (example_db, Inr ''token-new'') \<and>
   validate_session Written 7000
       (fst (create_user_session ''token-new'' 6000 DumpFailed example_db ''carol''))
       ''token-new'' =
     (example_db, None)"
proof -
  have a: "session_token alice \<noteq> Some ''token-new''" "session_token bob \<noteq> Some ''token-new''"
    by (simp_all add: alice_def bob_def)
  have fresh: "\<forall>(n, u)\<in>set (users example_db). session_token u \<noteq> Some ''token-new''"
    by (simp add: example_db_def a)
  note r = session_for_unknown_user [OF example_lookup(3),
      where tok = "''token-new''" and now = 6000 and io = DumpFailed]
  have 1: "create_user_session ''token-new'' 6000 DumpFailed example_db ''carol'' =
      (example_db, Inr ''token-new'')"
    using r by blast
  have 2: "validate_session Written 7000
       (fst (create_user_session ''token-new'' 6000 DumpFailed example_db ''carol''))
       ''token-new'' =
     (fst (create_user_session ''token-new'' 6000 DumpFailed example_db ''carol''), None)"
    using r fresh by blast
  show ?thesis
    using 1 2 a example_lookup(3) by simp
qed

section \<open>Properties of the chat registry\<close>

lemma record_message_present:
  assumes "map_of (users d) name = Some u"
    and "chats u = Some cs"
    and "map_of cs cid = Some c"
  shows "\<exists>cs'.
           map_of (users (fst (update_chat_last_message now io d name cid))) name =
             Some (u\<lparr>chats := Some cs'\<rparr>) \<and>
           map_of cs' cid =
             Some (c\<lparr>last_message_at := Some (isoformat now),
                     message_count :=
                       Some ((case message_count c of None \<Rightarrow> 0 | Some k \<Rightarrow> k) + 1)\<rparr>) \<and>
           (\<forall>k. k \<noteq> cid \<longrightarrow> map_of cs' k = map_of cs k) \<and>
           map fst cs' = map fst cs \<and>
           (\<forall>n. n \<noteq> name \<longrightarrow>
              map_of (users (fst (update_chat_last_message now io d name cid))) n =
                map_of (users d) n) \<and>
           map fst (users (fst (update_chat_last_message now io d name cid))) =
             map fst (users d) \<and>
           (io = Written \<longrightarrow>
              update_chat_last_message now io d name cid =
                (\<lparr>users = users (fst (update_chat_last_message now io d name cid)),
                  db_file = Json (users (fst (update_chat_last_message now io d name cid)))\<rparr>,
                 Inr ()))"
proof -
  let ?c' = "c\<lparr>last_message_at := Some (isoformat now),
      message_count := Some ((case message_count c of None \<Rightarrow> 0 | Some k \<Rightarrow> k) + 1)\<rparr>"
  let ?cs' = "AList.update cid ?c' cs"
  let ?r = "update_chat_last_message now io d name cid"
  have us': "users (fst ?r) = AList.update name (u\<lparr>chats := Some ?cs'\<rparr>) (users d)"
    using assms unfolding update_chat_last_message_def by (cases io) (simp_all add: Let_def)
  have 1: "map_of (users (fst ?r)) name = Some (u\<lparr>chats := Some ?cs'\<rparr>)"
    unfolding us' by (simp add: update_conv')
  have 2: "map_of ?cs' cid = Some ?c'" by (simp add: update_conv')
  have 3: "\<forall>k. k \<noteq> cid \<longrightarrow> map_of ?cs' k = map_of cs k" by (simp add: update_conv')
  have 4: "map fst ?cs' = map fst cs"
    using map_of_Some_key [OF assms(3)] by (simp add: update_keys)
  have 5: "\<forall>n. n \<noteq> name \<longrightarrow> map_of (users (fst ?r)) n = map_of (users d) n"
    unfolding us' by (simp add: update_conv')
  have 6: "map fst (users (fst ?r)) = map fst (users d)"
    unfolding us' using map_of_Some_key [OF assms(1)] by (simp add: update_keys)
  have 7: "io = Written \<longrightarrow>
      ?r = (\<lparr>users = users (fst ?r), db_file = Json (users (fst ?r))\<rparr>, Inr ())"
    using assms unfolding update_chat_last_message_def by (simp add: Let_def)
  from 1 2 3 4 5 6 7 show ?thesis by blast
qed

lemma record_message_absent:
  "map_of (users d) name = None \<or>
   (\<exists>u. map_of (users d) name = Some u \<and>
        map_of (case chats u of None \<Rightarrow> [] | Some cs \<Rightarrow> cs) cid = None) \<Longrightarrow>
   update_chat_last_message now io d name cid = (d, Inr ())"
  unfolding update_chat_last_message_def by (auto split: option.splits)

text \<open>
  C8: when the user is in the store and the chat is in the user's chats,
  \<open>update_chat_last_message\<close> leaves the user's record with all fields but \<^verbatim>\<open>chats\<close> as
  they were, and in the chats the chat with \<^verbatim>\<open>last_message_at\<close> set to the clock and
  \<^verbatim>\<open>message_count\<close> one more than it was (an absent count is read as 0), its other fields
  as they were; every other chat, every other user and the order of the keys are
  unchanged, and when the write succeeds the file holds the new users and the call
  returns. When the user or the chat is absent, the call returns the state it was
  given.
\<close>

theorem record_message_counts:
  "(\<forall>u cs c. map_of (users d) name = Some u \<and> chats u = Some cs \<and> map_of cs cid = Some c \<longrightarrow>
      (\<exists>cs'.
         map_of (users (fst (update_chat_last_message now io d name cid))) name =
           Some (u\<lparr>chats := Some cs'\<rparr>) \<and>
         map_of cs' cid =
           Some (c\<lparr>last_message_at := Some (isoformat now),
                   message_count :=
                     Some ((case message_count c of None \<Rightarrow> 0 | Some k \<Rightarrow> k) + 1)\<rparr>) \<and>
         (\<forall>k. k \<noteq> cid \<longrightarrow> map_of cs' k = map_of cs k) \<and>
         map fst cs' = map fst cs \<and>
         (\<forall>n. n \<noteq> name \<longrightarrow>
            map_of (users (fst (update_chat_last_message now io d name cid))) n =
              map_of (users d) n) \<and>
         map fst (users (fst (update_chat_last_message now io d name cid))) =
           map fst (users d) \<and>
         (io = Written \<longrightarrow>
            update_chat_last_message now io d name cid =
              (\<lparr>users = users (fst (update_chat_last_message now io d name cid)),
                db_file = Json (users (fst (update_chat_last_message now io d name cid)))\<rparr>,
               Inr ())))) \<and>
   (map_of (users d) name = None \<or>
    (\<exists>u. map_of (users d) name = Some u \<and>
         map_of (case chats u of None \<Rightarrow> [] | Some cs \<Rightarrow> cs) cid = None) \<longrightarrow>
      update_chat_last_message now io d name cid = (d, Inr ()))"
  using record_message_present [of d name _ _ cid _ now io]
    record_message_absent [of d name cid now io]
  by blast

text \<open>
  C8, on the example store at time 6000: the chat \<^verbatim>\<open>c1\<close> of \<^verbatim>\<open>alice\<close> had three messages
  and then has four; \<^verbatim>\<open>bob\<close> is untouched; for \<^verbatim>\<open>carol\<close>, who is not a user, and for the
  chat \<^verbatim>\<open>c9\<close>, which \<^verbatim>\<open>alice\<close> does not have, nothing changes.
\<close>

theorem record_message_counts_witness:
  "map_of (users example_db) ''alice'' = Some alice \<and>
   chats alice = Some [(''c1'', chat1)] \<and>
   map_of [(''c1'', chat1)] ''c1'' = Some chat1 \<and>
   message_count chat1 = Some 3 \<and>
   (\<exists>cs'. map_of (users (fst (update_chat_last_message 6000 Written example_db ''alice'' ''c1'')))
            ''alice'' = Some (alice\<lparr>chats := Some cs'\<rparr>) \<and>
          map_of cs' ''c1'' =
            Some (chat1\<lparr>last_message_at := Some (Stamp 6000), message_count := Some 4\<rparr>)) \<and>
   map_of (users (fst (update_chat_last_message 6000 Written example_db ''alice'' ''c1'')))
       ''bob'' = Some bob \<and>
   map_of (users example_db) ''carol'' = None \<and>
   update_chat_last_message 6000 Written example_db ''carol'' ''c1'' = (example_db, Inr ()) \<and>
   map_of (case chats alice of None \<Rightarrow> [] | Some cs \<Rightarrow> cs) ''c9'' = None \<and>
   update_chat_last_message 6000 Written example_db ''alice'' ''c9'' = (example_db, Inr ())"
proof -
  have a: "chats alice = Some [(''c1'', chat1)]" "map_of [(''c1'', chat1)] ''c1'' = Some chat1"
    "message_count chat1 = Some 3"
    "map_of (case chats alice of None \<Rightarrow> [] | Some cs \<Rightarrow> cs) ''c9'' = None"
    by (simp_all add: alice_def chat1_def)
  have present: "map_of (users example_db) ''alice'' = Some alice \<and>
      chats alice = Some [(''c1'', chat1)] \<and> map_of [(''c1'', chat1)] ''c1'' = Some chat1"
    using a example_lookup(1) by simp
  have absent: "map_of (users example_db) ''alice'' = Some alice \<and>
      map_of (case chats alice of None \<Rightarrow> [] | Some cs \<Rightarrow> cs) ''c9'' = None"
    using a example_lookup(1) by simp
  note r1 = record_message_counts [where d = example_db and name = "''alice''"
      and cid = "''c1''" and now = 6000 and io = Written, THEN conjunct1, rule_format, OF present]
  note r2 = record_message_counts [where d = example_db and name = "''carol''"
      and cid = "''c1''" and now = 6000 and io = Written, THEN conjunct2, rule_format]
  note r3 = record_message_counts [where d = example_db and name = "''alice''"
      and cid = "''c9''" and now = 6000 and io = Written, THEN conjunct2, rule_format]
  have 1: "\<exists>cs'. map_of (users (fst (update_chat_last_message 6000 Written example_db
            ''alice'' ''c1''))) ''alice'' = Some (alice\<lparr>chats := Some cs'\<rparr>) \<and>
          map_of cs' ''c1'' =
            Some (chat1\<lparr>last_message_at := Some (Stamp 6000), message_count := Some 4\<rparr>)"
    using r1 by (auto simp: a isoformat_def)
  have 2: "map_of (users (fst (update_chat_last_message 6000 Written example_db
            ''alice'' ''c1''))) ''bob'' = Some bob"
    using r1 example_lookup(2) by auto
  have 3: "update_chat_last_message 6000 Written example_db ''carol'' ''c1'' =
      (example_db, Inr ())"
    using r2 example_lookup(3) by blast
  have 4: "update_chat_last_message 6000 Written example_db ''alice'' ''c9'' =
      (example_db, Inr ())"
    using r3 absent by blast
  from 1 2 3 4 a example_lookup show ?thesis by blast
qed

end
